theory Spec2Isabelle
  imports Main "HOL-Library.Word" "HOL-Library.AList"
begin

section \<open>The Olympia API client (olympiabhub/api.py)\<close>

text \<open>
  A shallow embedding of the class \<open>OlympiaAPI\<close>. A Python \<open>str\<close> is a \<open>string\<close>
  whose characters are code points (every literal of the source has code points below 256;
  the only one beyond ASCII is U+00E8 in the key of the model lists). An optional string
  (\<open>None\<close> or a \<open>str\<close>) is a \<open>string option\<close>. The process environment read by
  \<open>os.getenv\<close> is a map from names to values.
\<close>

subsection \<open>Python values and exceptions\<close>

text \<open>
  The values that travel as JSON bodies: what \<open>json=\<close> serialises and what
  \<open>response.json()\<close> returns. A float is kept as its 64 IEEE bits, never inspected. A dict
  is an association list, looked up from the front.
\<close>

datatype pyval =
    PNone
  | PBool bool
  | PInt int
  | PFloat "64 word"
  | PStr string
  | PList "pyval list"
  | PDict "(string \<times> pyval) list"

text \<open>
  The exception classes of \<open>requests.exceptions\<close>, which the handlers of
  \<open>_make_request\<close> match on, and \<open>OtherException\<close> for an exception whose class is
  outside that hierarchy. \<open>bases\<close> lists a class with all its ancestors inside the hierarchy
  (ConnectTimeout inherits from both ConnectionError and Timeout).
\<close>

datatype exc_class =
    RequestException
  | InvalidJSONError
  | JSONDecodeError
  | HTTPError
  | Requests_ConnectionError
  | ProxyError
  | SSLError
  | Timeout
  | ConnectTimeout
  | ReadTimeout
  | URLRequired
  | TooManyRedirects
  | MissingSchema
  | InvalidSchema
  | InvalidURL
  | InvalidHeader
  | InvalidProxyURL
  | ChunkedEncodingError
  | ContentDecodingError
  | StreamConsumedError
  | RetryError
  | UnrewindableBodyError
  | OtherException

fun bases :: "exc_class \<Rightarrow> exc_class list" where
  "bases RequestException = [RequestException]"
| "bases InvalidJSONError = [InvalidJSONError, RequestException]"
| "bases JSONDecodeError = [JSONDecodeError, InvalidJSONError, RequestException]"
| "bases HTTPError = [HTTPError, RequestException]"
| "bases Requests_ConnectionError = [Requests_ConnectionError, RequestException]"
| "bases ProxyError = [ProxyError, Requests_ConnectionError, RequestException]"
| "bases SSLError = [SSLError, Requests_ConnectionError, RequestException]"
| "bases Timeout = [Timeout, RequestException]"
| "bases ConnectTimeout = [ConnectTimeout, Requests_ConnectionError, Timeout, RequestException]"
| "bases ReadTimeout = [ReadTimeout, Timeout, RequestException]"
| "bases URLRequired = [URLRequired, RequestException]"
| "bases TooManyRedirects = [TooManyRedirects, RequestException]"
| "bases MissingSchema = [MissingSchema, RequestException]"
| "bases InvalidSchema = [InvalidSchema, RequestException]"
| "bases InvalidURL = [InvalidURL, RequestException]"
| "bases InvalidHeader = [InvalidHeader, RequestException]"
| "bases InvalidProxyURL = [InvalidProxyURL, InvalidURL, RequestException]"
| "bases ChunkedEncodingError = [ChunkedEncodingError, RequestException]"
| "bases ContentDecodingError = [ContentDecodingError, RequestException]"
| "bases StreamConsumedError = [StreamConsumedError, RequestException]"
| "bases RetryError = [RetryError, RequestException]"
| "bases UnrewindableBodyError = [UnrewindableBodyError, RequestException]"
| "bases OtherException = [OtherException]"

text \<open>An exception raised below the client: its class and its text (\<open>str(e)\<close>).\<close>

datatype raised = Raised exc_class string

fun isinstance :: "raised \<Rightarrow> exc_class \<Rightarrow> bool" where
  "isinstance (Raised c m) b = (b \<in> set (bases c))"

fun str_of :: "raised \<Rightarrow> string" where
  "str_of (Raised c m) = m"

text \<open>
  What reaches the caller of the client: the built-in exceptions the source raises with
  their messages, the lookup failures of the interpreter (\<open>KeyError\<close> with the key,
  \<open>TypeError\<close> for a subscript on something that is no dict, \<open>UnboundLocalError\<close> with
  the name of the local variable), and an exception no handler matched, which propagates
  as it is.
\<close>

datatype py_exc =
    ValueError string
  | ConnectionError string
  | TimeoutError string
  | RuntimeError string
  | KeyError string
  | TypeError
  | UnboundLocalError string
  | Propagated raised

subsection \<open>Construction\<close>

record OlympiaAPI =
  token :: string
  model :: string
  base_url :: string
  nubonyxia_proxy :: "string option"
  nubonyxia_user_agent :: string

text \<open>Truth value of an optional string: \<open>None\<close> and the empty string are false.\<close>

fun truthy :: "string option \<Rightarrow> bool" where
  "truthy None = False"
| "truthy (Some s) = (s \<noteq> [])"

text \<open>Python's \<open>a or b\<close>: \<open>a\<close> when it is true, \<open>b\<close> otherwise.\<close>

definition py_or :: "string option \<Rightarrow> string option \<Rightarrow> string option" where
  "py_or a b = (if truthy a then a else b)"

definition token_required :: string where
  "token_required =
     ''Token is required. Set OLYMPIA_API_KEY/OLYMPIA_API_TOKEN or pass as parameter.''"

definition firefox_user_agent :: string where
  "firefox_user_agent =
     ''Mozilla/5.0 (Windows NT 10.0; Win64; x64; rv:102.0) Gecko/20100101 Firefox/102.0''"

text \<open>
  \<open>__init__(self, model, token=None, proxy=None)\<close>, with the environment as an argument.
  It returns the constructed object or the exception raised.
\<close>

definition init ::
  "string \<Rightarrow> string option \<Rightarrow> string option \<Rightarrow> (string \<rightharpoonup> string) \<Rightarrow> py_exc + OlympiaAPI"
where
  "init mdl tok prx getenv =
     (case py_or (py_or tok (getenv ''OLYMPIA_API_KEY'')) (getenv ''OLYMPIA_API_TOKEN'') of
        None \<Rightarrow> Inl (ValueError token_required)
      | Some t \<Rightarrow>
          if t = [] then Inl (ValueError token_required)
          else Inr \<lparr> token = t,
                     model = mdl,
                     base_url = ''https://api.olympia.bhub.cloud'',
                     nubonyxia_proxy = py_or prx (getenv ''PROXY''),
                     nubonyxia_user_agent = firefox_user_agent \<rparr>)"

subsection \<open>Headers\<close>

text \<open>\<open>_get_headers\<close>: the dict literal, in the order it is written.\<close>

definition get_headers :: "OlympiaAPI \<Rightarrow> (string \<times> string) list" where
  "get_headers self =
     [(''accept'', ''application/json''),
      (''Authorization'', ''Bearer '' @ token self),
      (''Content-Type'', ''application/json'')]"

text \<open>
  The name of an HTTP header field is matched without regard to the case of its ASCII
  letters, and so does the header dict of the HTTP library, where the entry written last
  is the one found.
\<close>

definition ascii_lower :: "char \<Rightarrow> char" where
  "ascii_lower c =
     (case map_of (zip ''ABCDEFGHIJKLMNOPQRSTUVWXYZ'' ''abcdefghijklmnopqrstuvwxyz'') c of
        None \<Rightarrow> c
      | Some l \<Rightarrow> l)"

definition header_value :: "string \<Rightarrow> (string \<times> string) list \<Rightarrow> string option" where
  "header_value name hs =
     map_option snd (find (\<lambda>kv. map ascii_lower (fst kv) = map ascii_lower name) (rev hs))"

subsection \<open>The HTTP library\<close>

text \<open>
  The HTTP library is outside the client, so it is an argument. A request records who sends
  it: \<open>None\<close> is the module-level \<open>requests.request\<close>, \<open>Some s\<close> a
  \<open>requests.Session()\<close> in state \<open>s\<close>, where \<open>proxies\<close> is \<open>session.proxies\<close> and
  \<open>proxy_manager\<close> is the dict of the https adapter that holds its proxy managers by proxy
  URL, each manager standing for its \<open>proxy_headers\<close>.
\<close>

record session =
  proxies :: "(string \<times> string) list"
  proxy_manager :: "(string \<times> (string \<times> string) list) list"

record request =
  sender :: "session option"
  http_method :: string
  url :: string
  headers :: "(string \<times> string) list"
  json :: "pyval option"

text \<open>
  A response: its status line, its final URL, its body as text, and what
  \<open>response.json()\<close> gives for the body, a parsed value or the exception of the parser.
\<close>

record response =
  status_code :: nat
  reason :: string
  resp_url :: string
  resp_text :: string
  json_result :: "raised + pyval"

datatype reply = Responds response | Raises raised

type_synonym transport = "request \<Rightarrow> reply"

text \<open>
  The two entries of the library the source calls. \<open>session_request\<close> is what
  \<open>session.request(method, url, headers, json)\<close> does with a request: a response or a
  raised exception. \<open>new_proxy_manager\<close> is what \<open>proxy_manager_for\<close> does for a proxy
  URL the adapter has no manager for yet: it raises when it cannot parse the URL, and
  otherwise makes a manager whose \<open>proxy_headers\<close> start from what the URL gives (a
  \<open>Proxy-Authorization\<close> entry when the URL carries credentials).
\<close>

record library =
  session_request :: transport
  new_proxy_manager :: "string \<Rightarrow> raised + (string \<times> string) list"

definition new_session :: session where
  "new_session = \<lparr> proxies = [], proxy_manager = [] \<rparr>"

text \<open>
  \<open>HTTPAdapter.proxy_manager_for\<close>: the manager the adapter already has for the URL, or a
  new one, which is stored. It gives the session after the call and the headers of the
  manager, or the exception raised.
\<close>

definition proxy_manager_for ::
  "library \<Rightarrow> string \<Rightarrow> session \<Rightarrow> raised + session \<times> (string \<times> string) list"
where
  "proxy_manager_for lib proxy_url s =
     (case map_of (proxy_manager s) proxy_url of
        Some h \<Rightarrow> Inr (s, h)
      | None \<Rightarrow>
          (case new_proxy_manager lib proxy_url of
             Inl e \<Rightarrow> Inl e
           | Inr h \<Rightarrow>
               Inr (s \<lparr> proxy_manager := AList.update proxy_url h (proxy_manager s) \<rparr>, h)))"

text \<open>
  Decimal digits of a natural number, as an f-string prints a status code. \<open>digit\<close> is
  only applied below ten.
\<close>

definition digit :: "nat \<Rightarrow> char" where
  "digit d = ''0123456789'' ! d"

function str_nat :: "nat \<Rightarrow> string" where
  "str_nat n =
     (if n < 10 then [digit n]
      else str_nat (n div 10) @ [digit (n mod 10)])"
  by pat_completeness auto
termination
  by (relation "measure (\<lambda>n. n)") auto

text \<open>
  \<open>Response.raise_for_status\<close> of the HTTP library, which the source calls on every
  response:
  \<^verbatim>\<open>
  if 400 <= self.status_code < 500:
      http_error_msg = f"{self.status_code} Client Error: {reason} for url: {self.url}"
  elif 500 <= self.status_code < 600:
      http_error_msg = f"{self.status_code} Server Error: {reason} for url: {self.url}"
  if http_error_msg:
      raise HTTPError(http_error_msg, response=self)
  \<close>
  It raises nothing for any other status. \<open>ok\<close> is the truth value of a response
  (\<open>Response.__bool__\<close> returns \<open>self.ok\<close>): whether \<open>raise_for_status\<close> would pass.
\<close>

definition raise_for_status :: "response \<Rightarrow> raised option" where
  "raise_for_status r =
     (if 400 \<le> status_code r \<and> status_code r < 500 then
        Some (Raised HTTPError
          (str_nat (status_code r) @ '' Client Error: '' @ reason r @ '' for url: '' @ resp_url r))
      else if 500 \<le> status_code r \<and> status_code r < 600 then
        Some (Raised HTTPError
          (str_nat (status_code r) @ '' Server Error: '' @ reason r @ '' for url: '' @ resp_url r))
      else None)"

definition ok :: "response \<Rightarrow> bool" where
  "ok r = (raise_for_status r = None)"

subsection \<open>Request execution\<close>

text \<open>
  One run of an operation: the requests handed to the transport, the messages given to
  \<open>logger.error\<close>, and the value returned (\<open>Inr\<close>) or the exception raised (\<open>Inl\<close>).
\<close>

record 'a run =
  sent :: "request list"
  logged :: "string list"
  result :: "py_exc + 'a"

text \<open>
  The two statements under \<open>if use_proxy and self.nubonyxia_proxy\<close>, which stand before
  the \<open>try\<close>: the proxy manager for \<open>http://<proxy>\<close> is fetched and the user agent
  written into its proxy headers, then the session's proxies for http and https become the
  proxy address. An exception of the first statement leaves the function at once.
\<close>

definition with_proxy :: "library \<Rightarrow> OlympiaAPI \<Rightarrow> string \<Rightarrow> session \<Rightarrow> raised + session" where
  "with_proxy lib self p s =
     (case proxy_manager_for lib (''http://'' @ p) s of
        Inl e \<Rightarrow> Inl e
      | Inr (s', h) \<Rightarrow>
          Inr (s' \<lparr> proxy_manager :=
                      AList.update (''http://'' @ p)
                        (AList.update ''User-Agent'' (nubonyxia_user_agent self) h)
                        (proxy_manager s'),
                    proxies := AList.update ''https'' p (AList.update ''http'' p (proxies s')) \<rparr>))"

text \<open>
  \<open>session = requests.Session() if use_proxy else requests\<close>, followed by the proxy
  set-up: who will send the request, or the exception the set-up raised.
\<close>

definition make_sender :: "library \<Rightarrow> OlympiaAPI \<Rightarrow> bool \<Rightarrow> raised + session option" where
  "make_sender lib self use_proxy =
     (if use_proxy then
        (case nubonyxia_proxy self of
           None \<Rightarrow> Inr (Some new_session)
         | Some p \<Rightarrow>
             if p = [] then Inr (Some new_session)
             else (case with_proxy lib self p new_session of
                     Inl e \<Rightarrow> Inl e
                   | Inr s \<Rightarrow> Inr (Some s)))
      else Inr None)"

text \<open>
  The \<open>except\<close> clauses in the order of the source, for an exception \<open>e\<close> raised inside
  the \<open>try\<close>. \<open>resp\<close> is the local variable \<open>response\<close>, \<open>None\<close> while it is unbound
  (the exception came out of \<open>session.request\<close>): the \<open>HTTPError\<close> clause reads it before
  it logs. The result is what was logged and what is raised.
\<close>

definition except_clauses :: "raised \<Rightarrow> response option \<Rightarrow> string list \<times> py_exc" where
  "except_clauses e resp =
     (if isinstance e Requests_ConnectionError then
        ([''Connection error: '' @ str_of e], ConnectionError (''Failed to connect: '' @ str_of e))
      else if isinstance e Timeout then
        ([''Timeout error: '' @ str_of e], TimeoutError (''Request timed out: '' @ str_of e))
      else if isinstance e HTTPError then
        (case resp of
           None \<Rightarrow> ([], UnboundLocalError ''response'')
         | Some r \<Rightarrow>
             ([''HTTP error: '' @ str_of e @ '', Response: '' @
                 (if ok r then resp_text r else ''No response'')],
              ValueError (''HTTP error occurred: '' @ str_of e)))
      else if isinstance e RequestException then
        ([''Request error: '' @ str_of e], RuntimeError (''Request failed: '' @ str_of e))
      else ([], Propagated e))"

text \<open>
  The body of the \<open>try\<close>: \<open>session.request\<close>, \<open>response.raise_for_status()\<close>,
  \<open>response.json()\<close>. It gives the parsed value, or the exception raised together with
  the local variable \<open>response\<close> at that moment.
\<close>

definition try_body :: "transport \<Rightarrow> request \<Rightarrow> (raised \<times> response option) + pyval" where
  "try_body send req =
     (case send req of
        Raises e \<Rightarrow> Inl (e, None)
      | Responds r \<Rightarrow>
          (case raise_for_status r of
             Some e \<Rightarrow> Inl (e, Some r)
           | None \<Rightarrow>
               (case json_result r of
                  Inl e \<Rightarrow> Inl (e, Some r)
                | Inr v \<Rightarrow> Inr v)))"

text \<open>The request \<open>_make_request\<close> hands to the sender.\<close>

definition build_request ::
  "OlympiaAPI \<Rightarrow> session option \<Rightarrow> string \<Rightarrow> string \<Rightarrow> pyval option \<Rightarrow> request"
where
  "build_request self s mth endpoint data =
     \<lparr> sender = s,
       http_method = mth,
       url = base_url self @ ''/'' @ endpoint,
       headers = get_headers self,
       json = data \<rparr>"

text \<open>
  \<open>_make_request(self, method, endpoint, data=None, use_proxy=False)\<close>. An exception of
  the proxy set-up is outside the \<open>try\<close>: it reaches the caller as it is, nothing is
  logged and no request is made.
\<close>

definition make_request ::
  "OlympiaAPI \<Rightarrow> library \<Rightarrow> string \<Rightarrow> string \<Rightarrow> pyval option \<Rightarrow> bool \<Rightarrow> pyval run"
where
  "make_request self lib mth endpoint data use_proxy =
     (case make_sender lib self use_proxy of
        Inl e \<Rightarrow> \<lparr> sent = [], logged = [], result = Inl (Propagated e) \<rparr>
      | Inr s \<Rightarrow>
          (let req = build_request self s mth endpoint data
           in case try_body (session_request lib) req of
                Inr v \<Rightarrow> \<lparr> sent = [req], logged = [], result = Inr v \<rparr>
              | Inl (e, resp) \<Rightarrow>
                  (case except_clauses e resp of
                     (msgs, exc) \<Rightarrow> \<lparr> sent = [req], logged = msgs, result = Inl exc \<rparr>)))"

subsection \<open>Public operations\<close>

definition Chat :: "OlympiaAPI \<Rightarrow> library \<Rightarrow> string \<Rightarrow> pyval run" where
  "Chat self lib prompt =
     make_request self lib ''POST'' ''generate''
       (Some (PDict [(''model'', PStr (model self)), (''prompt'', PStr prompt)])) False"

definition ChatNubonyxia :: "OlympiaAPI \<Rightarrow> library \<Rightarrow> string \<Rightarrow> pyval run" where
  "ChatNubonyxia self lib prompt =
     make_request self lib ''POST'' ''generate''
       (Some (PDict [(''model'', PStr (model self)), (''prompt'', PStr prompt)])) True"

fun is_str :: "pyval \<Rightarrow> bool" where
  "is_str (PStr s) = True"
| "is_str _ = False"

definition texts_required :: string where
  "texts_required = ''Texts must be a non-empty list of strings''"

text \<open>
  The embedding operations take a Python list of any values: the source itself tests each
  element with \<open>isinstance(text, str)\<close>.
\<close>

definition create_embedding :: "OlympiaAPI \<Rightarrow> library \<Rightarrow> pyval list \<Rightarrow> pyval run" where
  "create_embedding self lib texts =
     (if texts = [] \<or> \<not> list_all is_str texts then
        \<lparr> sent = [], logged = [], result = Inl (ValueError texts_required) \<rparr>
      else
        make_request self lib ''POST'' ''embedding''
          (Some (PDict [(''model'', PStr (model self)), (''texts'', PList texts)])) False)"

definition create_embedding_nubonyxia ::
  "OlympiaAPI \<Rightarrow> library \<Rightarrow> pyval list \<Rightarrow> pyval run"
where
  "create_embedding_nubonyxia self lib texts =
     (if texts = [] \<or> \<not> list_all is_str texts then
        \<lparr> sent = [], logged = [], result = Inl (ValueError texts_required) \<rparr>
      else
        make_request self lib ''POST'' ''embedding''
          (Some (PDict [(''model'', PStr (model self)), (''texts'', PList texts)])) True)"

text \<open>
  The subscript \<open>value[key]\<close> with a string key: the entry of a dict, \<open>KeyError\<close> when the
  dict has no such key, \<open>TypeError\<close> on any other value.
\<close>

fun py_getitem :: "pyval \<Rightarrow> string \<Rightarrow> py_exc + pyval" where
  "py_getitem (PDict kvs) k = (case map_of kvs k of None \<Rightarrow> Inl (KeyError k) | Some v \<Rightarrow> Inr v)"
| "py_getitem v k = Inl TypeError"

text \<open>A subscript applied to what a run returned; a run that raised stays as it is.\<close>

definition subscript :: "pyval run \<Rightarrow> string \<Rightarrow> pyval run" where
  "subscript r k =
     (case result r of
        Inl e \<Rightarrow> r
      | Inr v \<Rightarrow> r \<lparr> result := py_getitem v k \<rparr>)"

text \<open>The key of the model lists, \<open>mod\<close>, U+00E8, \<open>les\<close>.\<close>

definition models_key :: string where
  "models_key = ''mod'' @ [CHR 0xE8] @ ''les''"

definition get_llm_models :: "OlympiaAPI \<Rightarrow> library \<Rightarrow> bool \<Rightarrow> pyval run" where
  "get_llm_models self lib use_proxy =
     subscript (make_request self lib ''GET'' ''modeles'' None use_proxy) models_key"

definition get_embedding_models :: "OlympiaAPI \<Rightarrow> library \<Rightarrow> bool \<Rightarrow> pyval run" where
  "get_embedding_models self lib use_proxy =
     subscript (make_request self lib ''GET'' ''embedding/models'' None use_proxy) models_key"

subsection \<open>Inputs of the test suite\<close>

text \<open>
  The client the tests construct (model \<open>test_model\<close>, the token taken from the
  environment), the same client with a proxy given as host and port, as a URL, and as a
  string no URL parser accepts, and canned libraries: \<open>replies\<close> and \<open>raises\<close> fix what
  the request gives, and the proxy managers start without headers. \<open>strict\<close> is such a
  library whose proxy manager cannot be made for \<open>http://[::1\<close>, the bracket of the IPv6
  host being left open.
\<close>

abbreviation test_env :: "string \<rightharpoonup> string" where
  "test_env \<equiv> Map.empty(''OLYMPIA_API_TOKEN'' \<mapsto> ''secret'')"

abbreviation api_with_proxy :: "string option \<Rightarrow> OlympiaAPI" where
  "api_with_proxy p \<equiv>
     \<lparr> token = ''secret'', model = ''test_model'',
       base_url = ''https://api.olympia.bhub.cloud'',
       nubonyxia_proxy = p, nubonyxia_user_agent = firefox_user_agent \<rparr>"

abbreviation test_api :: OlympiaAPI where
  "test_api \<equiv> api_with_proxy None"

abbreviation proxied_api :: OlympiaAPI where
  "proxied_api \<equiv> api_with_proxy (Some ''proxy.local:3128'')"

abbreviation url_proxied_api :: OlympiaAPI where
  "url_proxied_api \<equiv> api_with_proxy (Some ''http://proxy.local:3128'')"

abbreviation bad_proxied_api :: OlympiaAPI where
  "bad_proxied_api \<equiv> api_with_proxy (Some ''[::1'')"

abbreviation strict :: "transport \<Rightarrow> library" where
  "strict t \<equiv>
     \<lparr> session_request = t,
       new_proxy_manager =
         (\<lambda>u. if u = ''http://[::1'' then Inl (Raised OtherException ''Invalid IPv6 URL'')
              else Inr []) \<rparr>"

abbreviation replies :: "nat \<Rightarrow> string \<Rightarrow> string \<Rightarrow> raised + pyval \<Rightarrow> library" where
  "replies status why body parsed \<equiv>
     strict (\<lambda>req. Responds \<lparr> status_code = status, reason = why, resp_url = url req,
                             resp_text = body, json_result = parsed \<rparr>)"

abbreviation raises :: "exc_class \<Rightarrow> string \<Rightarrow> library" where
  "raises c m \<equiv> strict (\<lambda>req. Raises (Raised c m))"

section \<open>Properties\<close>

subsection \<open>Construction\<close>

lemma init_fields:
  assumes "init mdl tok prx env = Inr self"
  shows "model self = mdl"
    and "base_url self = ''https://api.olympia.bhub.cloud''"
    and "nubonyxia_proxy self = py_or prx (env ''PROXY'')"
    and "nubonyxia_user_agent self = firefox_user_agent"
    and "find truthy [tok, env ''OLYMPIA_API_KEY'', env ''OLYMPIA_API_TOKEN'']
           = Some (Some (token self))"
    and "token self \<noteq> []"
  using assms
  by (cases tok; cases "env ''OLYMPIA_API_KEY''"; cases "env ''OLYMPIA_API_TOKEN''";
      auto simp: init_def py_or_def split: if_splits)+

text \<open>
  C6. Construction takes the token from the first of the constructor argument, the
  environment variable OLYMPIA_API_KEY and the environment variable OLYMPIA_API_TOKEN
  that is a non-empty string, and stores it. When none of the three is a non-empty string
  it raises the \<open>ValueError\<close> that asks for a token (the spec's ConfigurationError);
  construction has no transport at hand, so no request precedes the failure.
\<close>

theorem init_resolves_token:
  "init mdl tok prx env =
     (case find truthy [tok, env ''OLYMPIA_API_KEY'', env ''OLYMPIA_API_TOKEN''] of
        Some (Some t) \<Rightarrow>
          Inr \<lparr> token = t, model = mdl, base_url = ''https://api.olympia.bhub.cloud'',
                nubonyxia_proxy = py_or prx (env ''PROXY''),
                nubonyxia_user_agent = firefox_user_agent \<rparr>
      | _ \<Rightarrow> Inl (ValueError token_required))"
proof (cases "truthy tok")
  case True
  then obtain t where "tok = Some t" and "t \<noteq> []"
    by (cases tok) simp_all
  then show ?thesis
    by (simp add: init_def py_or_def)
next
  case no_arg: False
  show ?thesis
  proof (cases "truthy (env ''OLYMPIA_API_KEY'')")
    case True
    then obtain t where "env ''OLYMPIA_API_KEY'' = Some t" and "t \<noteq> []"
      by (cases "env ''OLYMPIA_API_KEY''") simp_all
    with no_arg show ?thesis
      by (simp add: init_def py_or_def)
  next
    case no_key: False
    show ?thesis
    proof (cases "env ''OLYMPIA_API_TOKEN''")
      case None
      with no_arg no_key show ?thesis
        by (simp add: init_def py_or_def)
    next
      case (Some t)
      with no_arg no_key show ?thesis
        by (cases "t = []") (simp_all add: init_def py_or_def)
    qed
  qed
qed

theorem init_resolves_token_witness:
  "init ''m'' None None
      (Map.empty(''OLYMPIA_API_KEY'' \<mapsto> [], ''OLYMPIA_API_TOKEN'' \<mapsto> ''t2'')) =
     Inr \<lparr> token = ''t2'', model = ''m'', base_url = ''https://api.olympia.bhub.cloud'',
           nubonyxia_proxy = None, nubonyxia_user_agent = firefox_user_agent \<rparr>
   \<and> init ''m'' (Some ''t0'') None
      (Map.empty(''OLYMPIA_API_KEY'' \<mapsto> ''t1'', ''OLYMPIA_API_TOKEN'' \<mapsto> ''t2'')) =
     Inr \<lparr> token = ''t0'', model = ''m'', base_url = ''https://api.olympia.bhub.cloud'',
           nubonyxia_proxy = None, nubonyxia_user_agent = firefox_user_agent \<rparr>
   \<and> init ''m'' None None
      (Map.empty(''OLYMPIA_API_KEY'' \<mapsto> ''t1'', ''OLYMPIA_API_TOKEN'' \<mapsto> ''t2'')) =
     Inr \<lparr> token = ''t1'', model = ''m'', base_url = ''https://api.olympia.bhub.cloud'',
           nubonyxia_proxy = None, nubonyxia_user_agent = firefox_user_agent \<rparr>
   \<and> init ''m'' (Some []) None Map.empty = Inl (ValueError token_required)"
  using
    init_resolves_token [of "''m''" None None
      "Map.empty(''OLYMPIA_API_KEY'' \<mapsto> [], ''OLYMPIA_API_TOKEN'' \<mapsto> ''t2'')"]
    init_resolves_token [of "''m''" "Some ''t0''" None
      "Map.empty(''OLYMPIA_API_KEY'' \<mapsto> ''t1'', ''OLYMPIA_API_TOKEN'' \<mapsto> ''t2'')"]
    init_resolves_token [of "''m''" None None
      "Map.empty(''OLYMPIA_API_KEY'' \<mapsto> ''t1'', ''OLYMPIA_API_TOKEN'' \<mapsto> ''t2'')"]
    init_resolves_token [of "''m''" "Some []" None Map.empty]
  by (simp add: py_or_def)

subsection \<open>Headers\<close>

text \<open>
  C7. For every constructed client, \<open>_get_headers\<close> returns exactly three headers:
  Accept (spelled \<open>accept\<close> in the source, the same field name) with application/json,
  Authorization with Bearer and the stored token, Content-Type with application/json. The
  stored token is the one construction resolved. The headers are a function of the
  client's token alone: any client with the same token gets equal headers.
\<close>

theorem get_headers_three:
  assumes "init mdl tok prx env = Inr self"
  shows "get_headers self =
           [(''accept'', ''application/json''),
            (''Authorization'', ''Bearer '' @ token self),
            (''Content-Type'', ''application/json'')]
       \<and> header_value ''Accept'' (get_headers self) = Some ''application/json''
       \<and> header_value ''Authorization'' (get_headers self) = Some (''Bearer '' @ token self)
       \<and> header_value ''Content-Type'' (get_headers self) = Some ''application/json''
       \<and> find truthy [tok, env ''OLYMPIA_API_KEY'', env ''OLYMPIA_API_TOKEN'']
            = Some (Some (token self))
       \<and> (\<forall>other. token other = token self \<longrightarrow> get_headers other = get_headers self)"
proof -
  have ex: "get_headers self =
           [(''accept'', ''application/json''),
            (''Authorization'', ''Bearer '' @ token self),
            (''Content-Type'', ''application/json'')]"
    by (simp add: get_headers_def)
  have hv: "header_value ''Accept'' (get_headers self) = Some ''application/json''"
    "header_value ''Authorization'' (get_headers self) = Some (''Bearer '' @ token self)"
    "header_value ''Content-Type'' (get_headers self) = Some ''application/json''"
    by (simp_all add: get_headers_def header_value_def ascii_lower_def)
  have eq: "\<forall>other. token other = token self \<longrightarrow> get_headers other = get_headers self"
    by (simp add: get_headers_def)
  from ex hv init_fields(5) [OF assms] eq show ?thesis by blast
qed

theorem get_headers_three_witness:
  "get_headers \<lparr> token = ''t2'', model = ''m'', base_url = ''https://api.olympia.bhub.cloud'',
           nubonyxia_proxy = None, nubonyxia_user_agent = firefox_user_agent \<rparr> =
     [(''accept'', ''application/json''),
      (''Authorization'', ''Bearer t2''),
      (''Content-Type'', ''application/json'')]
   \<and> header_value ''Accept''
       (get_headers \<lparr> token = ''t2'', model = ''m'',
           base_url = ''https://api.olympia.bhub.cloud'',
           nubonyxia_proxy = None, nubonyxia_user_agent = firefox_user_agent \<rparr>)
     = Some ''application/json''"
proof -
  have h: "init ''m'' None None (Map.empty(''OLYMPIA_API_TOKEN'' \<mapsto> ''t2'')) =
     Inr \<lparr> token = ''t2'', model = ''m'', base_url = ''https://api.olympia.bhub.cloud'',
           nubonyxia_proxy = None, nubonyxia_user_agent = firefox_user_agent \<rparr>"
    by (simp add: init_def py_or_def)
  note t = get_headers_three [OF h]
  from t have a: "get_headers \<lparr> token = ''t2'', model = ''m'',
           base_url = ''https://api.olympia.bhub.cloud'',
           nubonyxia_proxy = None, nubonyxia_user_agent = firefox_user_agent \<rparr> =
     [(''accept'', ''application/json''),
      (''Authorization'', ''Bearer t2''),
      (''Content-Type'', ''application/json'')]"
    by simp
  from t have b: "header_value ''Accept''
       (get_headers \<lparr> token = ''t2'', model = ''m'',
           base_url = ''https://api.olympia.bhub.cloud'',
           nubonyxia_proxy = None, nubonyxia_user_agent = firefox_user_agent \<rparr>)
     = Some ''application/json''"
    by blast
  from a b show ?thesis by blast
qed

subsection \<open>Request execution\<close>

lemma make_sender_direct:
  "make_sender lib self False = Inr None"
  by (simp add: make_sender_def)

lemma make_sender_no_proxy:
  "\<not> truthy (nubonyxia_proxy self) \<Longrightarrow> make_sender lib self True = Inr (Some new_session)"
  by (cases "nubonyxia_proxy self") (simp_all add: make_sender_def)

lemma make_request_setup_raised:
  "make_sender lib self up = Inl e \<Longrightarrow>
     make_request self lib mth ep data up =
       \<lparr> sent = [], logged = [], result = Inl (Propagated e) \<rparr>"
  by (simp add: make_request_def)

lemma sent_make_request:
  "make_sender lib self up = Inr s \<Longrightarrow>
     sent (make_request self lib mth ep data up) = [build_request self s mth ep data]"
  by (simp add: make_request_def Let_def split: sum.splits prod.splits)

lemma result_make_request:
  "make_sender lib self up = Inr s \<Longrightarrow>
     result (make_request self lib mth ep data up) =
       (case try_body (session_request lib) (build_request self s mth ep data) of
          Inr v \<Rightarrow> Inr v
        | Inl (e, resp) \<Rightarrow> Inl (snd (except_clauses e resp)))"
  by (simp add: make_request_def Let_def split: sum.splits prod.splits)

lemma logged_make_request:
  "make_sender lib self up = Inr s \<Longrightarrow>
     logged (make_request self lib mth ep data up) =
       (case try_body (session_request lib) (build_request self s mth ep data) of
          Inr v \<Rightarrow> []
        | Inl (e, resp) \<Rightarrow> fst (except_clauses e resp))"
  by (simp add: make_request_def Let_def split: sum.splits prod.splits)

lemma sent_at_most_one:
  "length (sent (make_request self lib mth ep data up)) \<le> 1"
  by (cases "make_sender lib self up")
     (simp_all add: make_request_setup_raised sent_make_request)

lemma try_body_status_error:
  assumes "send req = Responds r" and "400 \<le> status_code r" and "status_code r < 600"
  shows "try_body send req =
           Inl (Raised HTTPError
                  (str_nat (status_code r)
                     @ (if status_code r < 500 then '' Client Error: '' else '' Server Error: '')
                     @ reason r @ '' for url: '' @ resp_url r),
                Some r)"
  using assms by (simp add: try_body_def raise_for_status_def)

lemma try_body_success:
  assumes "send req = Responds r" and "200 \<le> status_code r" and "status_code r < 300"
    and "json_result r = Inr v"
  shows "try_body send req = Inr v"
  using assms by (simp add: try_body_def raise_for_status_def)

lemma except_connection:
  "isinstance e Requests_ConnectionError \<Longrightarrow>
     except_clauses e resp =
       ([''Connection error: '' @ str_of e], ConnectionError (''Failed to connect: '' @ str_of e))"
  by (simp add: except_clauses_def)

lemma except_timeout:
  "\<not> isinstance e Requests_ConnectionError \<Longrightarrow> isinstance e Timeout \<Longrightarrow>
     except_clauses e resp =
       ([''Timeout error: '' @ str_of e], TimeoutError (''Request timed out: '' @ str_of e))"
  by (simp add: except_clauses_def)

lemma http_error_only:
  assumes "isinstance e HTTPError"
  shows "\<not> isinstance e Requests_ConnectionError" and "\<not> isinstance e Timeout"
proof -
  obtain c m where e: "e = Raised c m" by (cases e)
  from assms e show "\<not> isinstance e Requests_ConnectionError" by (cases c) simp_all
  from assms e show "\<not> isinstance e Timeout" by (cases c) simp_all
qed

lemma except_http:
  "isinstance e HTTPError \<Longrightarrow>
     except_clauses e (Some r) =
       ([''HTTP error: '' @ str_of e @ '', Response: '' @
           (if ok r then resp_text r else ''No response'')],
        ValueError (''HTTP error occurred: '' @ str_of e))"
  by (simp add: except_clauses_def http_error_only)

lemma except_other:
  "isinstance e RequestException \<Longrightarrow> \<not> isinstance e Requests_ConnectionError \<Longrightarrow>
   \<not> isinstance e Timeout \<Longrightarrow> \<not> isinstance e HTTPError \<Longrightarrow>
     except_clauses e resp =
       ([''Request error: '' @ str_of e], RuntimeError (''Request failed: '' @ str_of e))"
  by (simp add: except_clauses_def)

lemma outside_hierarchy:
  assumes "\<not> isinstance e RequestException"
  shows "except_clauses e resp = ([], Propagated e)"
proof -
  obtain c m where e: "e = Raised c m" by (cases e)
  from assms e have "c = OtherException" by (cases c) simp_all
  with e show ?thesis by (simp add: except_clauses_def)
qed

lemma except_timeout_only:
  "snd (except_clauses e resp) = TimeoutError x \<Longrightarrow>
     isinstance e Timeout \<and> \<not> isinstance e Requests_ConnectionError"
  by (auto simp: except_clauses_def split: if_splits option.splits)

lemma except_not_texts_required:
  "snd (except_clauses e resp) \<noteq> ValueError texts_required"
  by (auto simp: except_clauses_def texts_required_def split: if_splits option.splits)

lemma result_not_texts_required:
  "result (make_request self lib mth ep data up) \<noteq> Inl (ValueError texts_required)"
proof (cases "make_sender lib self up")
  case (Inl e)
  then show ?thesis by (simp add: make_request_setup_raised)
next
  case (Inr s)
  then show ?thesis
    using except_not_texts_required
    by (auto simp: result_make_request split: sum.splits prod.splits)
qed

text \<open>The set-up of the canned libraries for the clients above.\<close>

lemma sender_of_host_port:
  "make_sender (strict t) proxied_api True =
     Inr (Some \<lparr> proxies = [(''http'', ''proxy.local:3128''), (''https'', ''proxy.local:3128'')],
                 proxy_manager =
                   [(''http://proxy.local:3128'', [(''User-Agent'', firefox_user_agent)])] \<rparr>)"
  by (simp add: make_sender_def with_proxy_def proxy_manager_for_def new_session_def)

lemma sender_of_bad_proxy:
  "make_sender (strict t) bad_proxied_api True = Inl (Raised OtherException ''Invalid IPv6 URL'')"
  by (simp add: make_sender_def with_proxy_def proxy_manager_for_def new_session_def)

subsection \<open>Embedding input validation\<close>

text \<open>
  C2, as the code has it. When \<open>texts\<close> is empty or has an element that is not a string,
  \<open>create_embedding\<close> and \<open>create_embedding_nubonyxia\<close> raise the \<open>ValueError\<close> of
  the validation (the spec's ValidationError) and no request is made. When \<open>texts\<close> is a
  non-empty list of strings, \<open>create_embedding\<close> hands the library exactly one request, a
  POST to the embedding endpoint whose JSON body is the model and the texts, and returns
  what the library's reply to that request parses to; \<open>create_embedding_nubonyxia\<close> does
  the same through its session whenever the proxy set-up raises nothing, and when the
  set-up raises, that exception reaches the caller and no request is made.
\<close>

theorem embedding_validation:
  "(texts = [] \<or> (\<exists>x\<in>set texts. \<not> is_str x) \<longrightarrow>
      create_embedding self lib texts =
        \<lparr> sent = [], logged = [], result = Inl (ValueError texts_required) \<rparr>
    \<and> create_embedding_nubonyxia self lib texts =
        \<lparr> sent = [], logged = [], result = Inl (ValueError texts_required) \<rparr>)
 \<and> (texts \<noteq> [] \<and> (\<forall>x\<in>set texts. is_str x) \<longrightarrow>
      sent (create_embedding self lib texts) =
        [\<lparr> sender = None, http_method = ''POST'', url = base_url self @ ''/embedding'',
            headers = get_headers self,
            json = Some (PDict [(''model'', PStr (model self)), (''texts'', PList texts)]) \<rparr>]
    \<and> (\<forall>r v.
          session_request lib
            \<lparr> sender = None, http_method = ''POST'', url = base_url self @ ''/embedding'',
              headers = get_headers self,
              json = Some (PDict [(''model'', PStr (model self)), (''texts'', PList texts)]) \<rparr>
            = Responds r
          \<and> 200 \<le> status_code r \<and> status_code r < 300 \<and> json_result r = Inr v
        \<longrightarrow> result (create_embedding self lib texts) = Inr v)
    \<and> (\<forall>s. make_sender lib self True = Inr s \<longrightarrow>
          sent (create_embedding_nubonyxia self lib texts) =
            [\<lparr> sender = s, http_method = ''POST'', url = base_url self @ ''/embedding'',
                headers = get_headers self,
                json = Some (PDict [(''model'', PStr (model self)), (''texts'', PList texts)]) \<rparr>]
        \<and> (\<forall>r v.
              session_request lib
                \<lparr> sender = s, http_method = ''POST'', url = base_url self @ ''/embedding'',
                  headers = get_headers self,
                  json = Some (PDict [(''model'', PStr (model self)), (''texts'', PList texts)]) \<rparr>
                = Responds r
              \<and> 200 \<le> status_code r \<and> status_code r < 300 \<and> json_result r = Inr v
            \<longrightarrow> result (create_embedding_nubonyxia self lib texts) = Inr v))
    \<and> (\<forall>e. make_sender lib self True = Inl e \<longrightarrow>
          create_embedding_nubonyxia self lib texts =
            \<lparr> sent = [], logged = [], result = Inl (Propagated e) \<rparr>))"
proof -
  let ?body = "Some (PDict [(''model'', PStr (model self)), (''texts'', PList texts)])"
  let ?req = "\<lambda>s. \<lparr> sender = s, http_method = ''POST'', url = base_url self @ ''/embedding'',
                      headers = get_headers self, json = ?body \<rparr>"
  have bad: "create_embedding self lib texts =
        \<lparr> sent = [], logged = [], result = Inl (ValueError texts_required) \<rparr>
    \<and> create_embedding_nubonyxia self lib texts =
        \<lparr> sent = [], logged = [], result = Inl (ValueError texts_required) \<rparr>"
    if "texts = [] \<or> (\<exists>x\<in>set texts. \<not> is_str x)"
    using that
    by (auto simp: create_embedding_def create_embedding_nubonyxia_def list_all_iff)
  have req: "build_request self s ''POST'' ''embedding'' ?body = ?req s" for s
    by (simp add: build_request_def)
  have run_sent: "sent (make_request self lib ''POST'' ''embedding'' ?body up) = [?req s]"
    if s: "make_sender lib self up = Inr s" for up s
    by (simp add: sent_make_request [OF s] req)
  have run_result: "result (make_request self lib ''POST'' ''embedding'' ?body up) = Inr v"
    if s: "make_sender lib self up = Inr s"
      and "session_request lib (?req s) = Responds r"
         "200 \<le> status_code r" "status_code r < 300" "json_result r = Inr v" for up s r v
    using try_body_success [where send = "session_request lib" and r = r and req = "?req s"
            and v = v] that
    by (simp add: result_make_request [OF s] req)
  show ?thesis
  proof (rule conjI)
    show "texts = [] \<or> (\<exists>x\<in>set texts. \<not> is_str x) \<longrightarrow>
      create_embedding self lib texts =
        \<lparr> sent = [], logged = [], result = Inl (ValueError texts_required) \<rparr>
    \<and> create_embedding_nubonyxia self lib texts =
        \<lparr> sent = [], logged = [], result = Inl (ValueError texts_required) \<rparr>"
      using bad by blast
  next
    have "sent (create_embedding self lib texts) = [?req None]
        \<and> (\<forall>r v. session_request lib (?req None) = Responds r
              \<and> 200 \<le> status_code r \<and> status_code r < 300 \<and> json_result r = Inr v
            \<longrightarrow> result (create_embedding self lib texts) = Inr v)
        \<and> (\<forall>s. make_sender lib self True = Inr s \<longrightarrow>
              sent (create_embedding_nubonyxia self lib texts) = [?req s]
            \<and> (\<forall>r v. session_request lib (?req s) = Responds r
                  \<and> 200 \<le> status_code r \<and> status_code r < 300 \<and> json_result r = Inr v
                \<longrightarrow> result (create_embedding_nubonyxia self lib texts) = Inr v))
        \<and> (\<forall>e. make_sender lib self True = Inl e \<longrightarrow>
              create_embedding_nubonyxia self lib texts =
                \<lparr> sent = [], logged = [], result = Inl (Propagated e) \<rparr>)"
      if ok: "texts \<noteq> [] \<and> (\<forall>x\<in>set texts. is_str x)"
    proof -
      have a: "create_embedding self lib texts =
                 make_request self lib ''POST'' ''embedding'' ?body False"
        using ok by (simp add: create_embedding_def list_all_iff)
      have b: "create_embedding_nubonyxia self lib texts =
                 make_request self lib ''POST'' ''embedding'' ?body True"
        using ok by (simp add: create_embedding_nubonyxia_def list_all_iff)
      show ?thesis
        unfolding a b
        using run_sent [OF make_sender_direct] run_result [OF make_sender_direct]
              run_sent [where up = True] run_result [where up = True]
              make_request_setup_raised [where up = True and lib = lib and self = self]
        by blast
    qed
    then show "texts \<noteq> [] \<and> (\<forall>x\<in>set texts. is_str x) \<longrightarrow>
      sent (create_embedding self lib texts) = [?req None]
        \<and> (\<forall>r v. session_request lib (?req None) = Responds r
              \<and> 200 \<le> status_code r \<and> status_code r < 300 \<and> json_result r = Inr v
            \<longrightarrow> result (create_embedding self lib texts) = Inr v)
        \<and> (\<forall>s. make_sender lib self True = Inr s \<longrightarrow>
              sent (create_embedding_nubonyxia self lib texts) = [?req s]
            \<and> (\<forall>r v. session_request lib (?req s) = Responds r
                  \<and> 200 \<le> status_code r \<and> status_code r < 300 \<and> json_result r = Inr v
                \<longrightarrow> result (create_embedding_nubonyxia self lib texts) = Inr v))
        \<and> (\<forall>e. make_sender lib self True = Inl e \<longrightarrow>
              create_embedding_nubonyxia self lib texts =
                \<lparr> sent = [], logged = [], result = Inl (Propagated e) \<rparr>)"
      by blast
  qed
qed

theorem embedding_validation_witness:
  "sent (create_embedding test_api (replies 200 ''OK'' [] (Inr PNone)) []) = []
 \<and> result (create_embedding test_api (replies 200 ''OK'' [] (Inr PNone)) [PStr ''a'', PInt 2])
      = Inl (ValueError texts_required)
 \<and> sent (create_embedding_nubonyxia test_api (replies 200 ''OK'' [] (Inr PNone))
      [PStr ''a'', PInt 2]) = []
 \<and> sent (create_embedding test_api (replies 200 ''OK'' [] (Inr PNone))
      [PStr ''test_text1'', PStr ''test_text2'']) =
      [\<lparr> sender = None, http_method = ''POST'',
          url = ''https://api.olympia.bhub.cloud/embedding'',
          headers = get_headers test_api,
          json = Some (PDict [(''model'', PStr ''test_model''),
                              (''texts'', PList [PStr ''test_text1'', PStr ''test_text2''])]) \<rparr>]
 \<and> result (create_embedding test_api
      (replies 200 ''OK'' [] (Inr (PDict [(''embeddings'', PList [])])))
      [PStr ''test_text1'', PStr ''test_text2'']) = Inr (PDict [(''embeddings'', PList [])])
 \<and> result (create_embedding_nubonyxia proxied_api
      (replies 200 ''OK'' [] (Inr (PDict [(''embeddings'', PList [])])))
      [PStr ''test_text1'', PStr ''test_text2'']) = Inr (PDict [(''embeddings'', PList [])])"
  using
    embedding_validation [of "[]" test_api "replies 200 ''OK'' [] (Inr PNone)"]
    embedding_validation [of "[PStr ''a'', PInt 2]" test_api "replies 200 ''OK'' [] (Inr PNone)"]
    embedding_validation [of "[PStr ''test_text1'', PStr ''test_text2'']" test_api
      "replies 200 ''OK'' [] (Inr PNone)"]
    embedding_validation [of "[PStr ''test_text1'', PStr ''test_text2'']" test_api
      "replies 200 ''OK'' [] (Inr (PDict [(''embeddings'', PList [])]))"]
    embedding_validation [of "[PStr ''test_text1'', PStr ''test_text2'']" proxied_api
      "replies 200 ''OK'' [] (Inr (PDict [(''embeddings'', PList [])]))"]
  by (simp add: sender_of_host_port)

text \<open>
  C2 as the spec states it fails for \<open>create_embedding_nubonyxia\<close>: with a configured
  proxy address the library cannot parse, a non-empty list of strings passes the validation
  and still no request is dispatched, since the proxy set-up raises first.
\<close>

theorem embedding_validation_counterexample:
  "create_embedding_nubonyxia bad_proxied_api (replies 200 ''OK'' [] (Inr PNone))
     [PStr ''test_text1'', PStr ''test_text2'']
   = \<lparr> sent = [], logged = [],
       result = Inl (Propagated (Raised OtherException ''Invalid IPv6 URL'')) \<rparr>"
  by (simp add: create_embedding_nubonyxia_def make_request_setup_raised sender_of_bad_proxy)

text \<open>
  C10, as the code has it. The validation looks only at the list being non-empty and at
  every element being a string. For a non-empty list of strings that has the empty string
  among its elements, neither operation raises the validation's \<open>ValueError\<close>;
  \<open>create_embedding\<close> hands the library exactly one request and returns what its reply
  parses to, and \<open>create_embedding_nubonyxia\<close> does the same whenever the proxy set-up
  raises nothing.
\<close>

theorem embedding_accepts_empty_strings:
  assumes "texts \<noteq> []" and "\<forall>x\<in>set texts. is_str x" and "PStr [] \<in> set texts"
  shows "result (create_embedding self lib texts) \<noteq> Inl (ValueError texts_required)
       \<and> result (create_embedding_nubonyxia self lib texts) \<noteq> Inl (ValueError texts_required)
       \<and> sent (create_embedding self lib texts) =
           [\<lparr> sender = None, http_method = ''POST'', url = base_url self @ ''/embedding'',
               headers = get_headers self,
               json = Some (PDict [(''model'', PStr (model self)), (''texts'', PList texts)]) \<rparr>]
       \<and> (\<forall>r v.
             session_request lib
               \<lparr> sender = None, http_method = ''POST'', url = base_url self @ ''/embedding'',
                 headers = get_headers self,
                 json = Some (PDict [(''model'', PStr (model self)), (''texts'', PList texts)]) \<rparr>
               = Responds r
             \<and> 200 \<le> status_code r \<and> status_code r < 300 \<and> json_result r = Inr v
           \<longrightarrow> result (create_embedding self lib texts) = Inr v)
       \<and> (\<forall>s. make_sender lib self True = Inr s \<longrightarrow>
             sent (create_embedding_nubonyxia self lib texts) =
               [\<lparr> sender = s, http_method = ''POST'', url = base_url self @ ''/embedding'',
                   headers = get_headers self,
                   json = Some (PDict [(''model'', PStr (model self)), (''texts'', PList texts)]) \<rparr>]
           \<and> (\<forall>r v.
                 session_request lib
                   \<lparr> sender = s, http_method = ''POST'', url = base_url self @ ''/embedding'',
                     headers = get_headers self,
                     json = Some (PDict [(''model'', PStr (model self)), (''texts'', PList texts)]) \<rparr>
                   = Responds r
                 \<and> 200 \<le> status_code r \<and> status_code r < 300 \<and> json_result r = Inr v
               \<longrightarrow> result (create_embedding_nubonyxia self lib texts) = Inr v))"
proof -
  let ?body = "Some (PDict [(''model'', PStr (model self)), (''texts'', PList texts)])"
  let ?req = "\<lambda>s. \<lparr> sender = s, http_method = ''POST'', url = base_url self @ ''/embedding'',
                      headers = get_headers self, json = ?body \<rparr>"
  have all: "list_all is_str texts"
    using assms(2) by (simp add: list_all_iff)
  have a: "create_embedding self lib texts =
             make_request self lib ''POST'' ''embedding'' ?body False"
    using assms(1) all by (simp add: create_embedding_def)
  have b: "create_embedding_nubonyxia self lib texts =
             make_request self lib ''POST'' ''embedding'' ?body True"
    using assms(1) all by (simp add: create_embedding_nubonyxia_def)
  have req: "build_request self s ''POST'' ''embedding'' ?body = ?req s" for s
    by (simp add: build_request_def)
  have run_sent: "sent (make_request self lib ''POST'' ''embedding'' ?body up) = [?req s]"
    if s: "make_sender lib self up = Inr s" for up s
    by (simp add: sent_make_request [OF s] req)
  have run_result: "result (make_request self lib ''POST'' ''embedding'' ?body up) = Inr v"
    if s: "make_sender lib self up = Inr s"
      and "session_request lib (?req s) = Responds r"
         "200 \<le> status_code r" "status_code r < 300" "json_result r = Inr v" for up s r v
    using try_body_success [where send = "session_request lib" and r = r and req = "?req s"
            and v = v] that
    by (simp add: result_make_request [OF s] req)
  show ?thesis
    unfolding a b
    using run_sent [OF make_sender_direct] run_result [OF make_sender_direct]
          run_sent [where up = True] run_result [where up = True]
          result_not_texts_required [of self lib "''POST''" "''embedding''" ?body]
    by blast
qed

theorem embedding_accepts_empty_strings_witness:
  "result (create_embedding test_api
      (replies 200 ''OK'' [] (Inr (PDict [(''embeddings'', PList [PList []])]))) [PStr []])
     = Inr (PDict [(''embeddings'', PList [PList []])])
 \<and> sent (create_embedding test_api
      (replies 200 ''OK'' [] (Inr (PDict [(''embeddings'', PList [PList []])]))) [PStr []])
     = [\<lparr> sender = None, http_method = ''POST'',
           url = ''https://api.olympia.bhub.cloud/embedding'',
           headers = get_headers test_api,
           json = Some (PDict [(''model'', PStr ''test_model''),
                               (''texts'', PList [PStr []])]) \<rparr>]
 \<and> result (create_embedding_nubonyxia proxied_api
      (replies 200 ''OK'' [] (Inr (PDict [(''embeddings'', PList [PList []])]))) [PStr []])
     = Inr (PDict [(''embeddings'', PList [PList []])])"
proof -
  have h: "[PStr []] \<noteq> []" "\<forall>x\<in>set [PStr []]. is_str x" "PStr [] \<in> set [PStr []]"
    by simp_all
  show ?thesis
    using
      embedding_accepts_empty_strings [OF h, of test_api
        "replies 200 ''OK'' [] (Inr (PDict [(''embeddings'', PList [PList []])]))"]
      embedding_accepts_empty_strings [OF h, of proxied_api
        "replies 200 ''OK'' [] (Inr (PDict [(''embeddings'', PList [PList []])]))"]
    by (simp add: sender_of_host_port)
qed

text \<open>
  C10 as the spec states it fails for \<open>create_embedding_nubonyxia\<close>: with a configured
  proxy address the library cannot parse, the list holding the empty string passes the
  validation and no network call is dispatched.
\<close>

theorem embedding_accepts_empty_strings_counterexample:
  "sent (create_embedding_nubonyxia bad_proxied_api (replies 200 ''OK'' [] (Inr PNone))
     [PStr []]) = []
 \<and> result (create_embedding_nubonyxia bad_proxied_api (replies 200 ''OK'' [] (Inr PNone))
     [PStr []]) = Inl (Propagated (Raised OtherException ''Invalid IPv6 URL''))"
  by (simp add: create_embedding_nubonyxia_def make_request_setup_raised sender_of_bad_proxy)

subsection \<open>Proxy routing\<close>

text \<open>
  C3, at a proxy given as a URL, which is what the docstring of the class asks for (\<open>proxy
  (str, optional): The proxy URL to use for Nubonyxia requests\<close>). The set-up makes the
  session's proxies for http and https that URL, and writes the fixed user agent into the
  proxy manager it fetches for \<open>http://\<close> followed by the URL, so into a manager for
  \<open>http://http://proxy.local:3128\<close>. The session has no manager for the proxy URL itself,
  which is the one the library looks for when it connects, so the user agent is not among
  the headers of the proxy connection. For the same address given as host and port the
  manager written to is the one for \<open>http://proxy.local:3128\<close>.
\<close>

theorem proxy_url_user_agent_misplaced:
  "make_sender (strict t) url_proxied_api True =
     Inr (Some \<lparr> proxies = [(''http'', ''http://proxy.local:3128''),
                            (''https'', ''http://proxy.local:3128'')],
                 proxy_manager =
                   [(''http://http://proxy.local:3128'',
                     [(''User-Agent'',
                       ''Mozilla/5.0 (Windows NT 10.0; Win64; x64; rv:102.0) Gecko/20100101 Firefox/102.0'')])] \<rparr>)
 \<and> make_sender (strict t) proxied_api True =
     Inr (Some \<lparr> proxies = [(''http'', ''proxy.local:3128''), (''https'', ''proxy.local:3128'')],
                 proxy_manager =
                   [(''http://proxy.local:3128'',
                     [(''User-Agent'',
                       ''Mozilla/5.0 (Windows NT 10.0; Win64; x64; rv:102.0) Gecko/20100101 Firefox/102.0'')])] \<rparr>)"
  by (simp add: make_sender_def with_proxy_def proxy_manager_for_def new_session_def
                firefox_user_agent_def)

subsection \<open>Chat\<close>

text \<open>
  C4. For a constructed client and every prompt, \<open>Chat\<close> hands the library one request:
  a POST to the base URL joined with \<open>generate\<close>, with the JSON body of the configured
  model and the prompt, sent without session or proxy. When the reply has a status from
  200 to 299 and its body parses as JSON, the parsed value is returned as it is and nothing
  is logged.
\<close>

theorem Chat_posts_generate:
  assumes "init mdl tok prx env = Inr self"
  shows "sent (Chat self lib prompt) =
           [\<lparr> sender = None, http_method = ''POST'',
               url = ''https://api.olympia.bhub.cloud/generate'',
               headers = get_headers self,
               json = Some (PDict [(''model'', PStr mdl), (''prompt'', PStr prompt)]) \<rparr>]
       \<and> (\<forall>r v.
             session_request lib
                  \<lparr> sender = None, http_method = ''POST'',
                    url = ''https://api.olympia.bhub.cloud/generate'',
                    headers = get_headers self,
                    json = Some (PDict [(''model'', PStr mdl), (''prompt'', PStr prompt)]) \<rparr>
               = Responds r
             \<and> 200 \<le> status_code r \<and> status_code r < 300 \<and> json_result r = Inr v
           \<longrightarrow> result (Chat self lib prompt) = Inr v \<and> logged (Chat self lib prompt) = [])"
proof -
  let ?req = "\<lparr> sender = None, http_method = ''POST'',
               url = ''https://api.olympia.bhub.cloud/generate'',
               headers = get_headers self,
               json = Some (PDict [(''model'', PStr mdl), (''prompt'', PStr prompt)]) \<rparr>"
  note direct = make_sender_direct [of lib self]
  have req: "build_request self None ''POST'' ''generate''
               (Some (PDict [(''model'', PStr (model self)), (''prompt'', PStr prompt)]))
             = ?req"
    by (simp add: build_request_def init_fields(1,2) [OF assms])
  have a: "sent (Chat self lib prompt) = [?req]"
    by (simp add: Chat_def sent_make_request [OF direct] req)
  have b: "result (Chat self lib prompt) = Inr v \<and> logged (Chat self lib prompt) = []"
    if "session_request lib ?req = Responds r" "200 \<le> status_code r" "status_code r < 300"
       "json_result r = Inr v" for r v
    using try_body_success [of "session_request lib" ?req r v, OF that]
    by (simp add: Chat_def result_make_request [OF direct] logged_make_request [OF direct] req)
  from a b show ?thesis by blast
qed

theorem Chat_posts_generate_witness:
  \<open>Chat test_api
     (replies 200 ''OK'' ''{"response": "ok"}'' (Inr (PDict [(''response'', PStr ''ok'')]))) ''hi''
   = \<lparr> sent = [\<lparr> sender = None, http_method = ''POST'',
                 url = ''https://api.olympia.bhub.cloud/generate'',
                 headers = get_headers test_api,
                 json = Some (PDict [(''model'', PStr ''test_model''),
                                     (''prompt'', PStr ''hi'')]) \<rparr>],
         logged = [],
         result = Inr (PDict [(''response'', PStr ''ok'')]) \<rparr>\<close>
proof -
  let ?lib = \<open>replies 200 ''OK'' ''{"response": "ok"}''
                 (Inr (PDict [(''response'', PStr ''ok'')]))\<close>
  have h: "init ''test_model'' None None test_env = Inr test_api"
    by (simp add: init_def py_or_def)
  have "sent (Chat test_api ?lib ''hi'') =
          [\<lparr> sender = None, http_method = ''POST'',
              url = ''https://api.olympia.bhub.cloud/generate'',
              headers = get_headers test_api,
              json = Some (PDict [(''model'', PStr ''test_model''),
                                  (''prompt'', PStr ''hi'')]) \<rparr>]
      \<and> result (Chat test_api ?lib ''hi'') = Inr (PDict [(''response'', PStr ''ok'')])
      \<and> logged (Chat test_api ?lib ''hi'') = []"
    using Chat_posts_generate [OF h, of ?lib "''hi''"] by simp
  then show ?thesis
    by (cases "Chat test_api ?lib ''hi''") simp
qed

subsection \<open>Model lists\<close>

text \<open>
  C5. For a constructed client whose sender is set up (always so without \<open>use_proxy\<close>,
  and with it when no proxy is configured), \<open>get_llm_models\<close> sends one GET to
  \<open>modeles\<close> and \<open>get_embedding_models\<close> one GET to \<open>embedding/models\<close>, without a
  body. When the reply has a status from 200 to 299 and its body parses as JSON, the result
  is the subscript of the parsed payload at the key \<open>mod\<close>, U+00E8, \<open>les\<close>: the value
  under that key as it is for a dict that has the key; the \<open>KeyError\<close> of the lookup for
  a dict that does not have it, and the \<open>TypeError\<close> of the subscript for a payload that
  is no dict, both raised to the caller, neither logged nor turned into another failure.
\<close>

theorem model_lists_subscript:
  assumes "init mdl tok prx env = Inr self"
  shows "(\<not> up \<longrightarrow> make_sender lib self up = Inr None)
       \<and> (up \<and> \<not> truthy (nubonyxia_proxy self) \<longrightarrow>
            make_sender lib self up = Inr (Some new_session))
       \<and> (\<forall>s. make_sender lib self up = Inr s \<longrightarrow>
           sent (get_llm_models self lib up) =
             [\<lparr> sender = s, http_method = ''GET'',
                 url = ''https://api.olympia.bhub.cloud/modeles'',
                 headers = get_headers self, json = None \<rparr>]
         \<and> sent (get_embedding_models self lib up) =
             [\<lparr> sender = s, http_method = ''GET'',
                 url = ''https://api.olympia.bhub.cloud/embedding/models'',
                 headers = get_headers self, json = None \<rparr>]
         \<and> (\<forall>r payload.
               session_request lib
                    \<lparr> sender = s, http_method = ''GET'',
                      url = ''https://api.olympia.bhub.cloud/modeles'',
                      headers = get_headers self, json = None \<rparr> = Responds r
               \<and> 200 \<le> status_code r \<and> status_code r < 300 \<and> json_result r = Inr payload
             \<longrightarrow> result (get_llm_models self lib up) =
                   (case payload of
                      PDict kvs \<Rightarrow>
                        (case map_of kvs (''mod'' @ [CHR 0xE8] @ ''les'') of
                           Some v \<Rightarrow> Inr v
                         | None \<Rightarrow> Inl (KeyError (''mod'' @ [CHR 0xE8] @ ''les'')))
                    | _ \<Rightarrow> Inl TypeError)
                 \<and> logged (get_llm_models self lib up) = [])
         \<and> (\<forall>r payload.
               session_request lib
                    \<lparr> sender = s, http_method = ''GET'',
                      url = ''https://api.olympia.bhub.cloud/embedding/models'',
                      headers = get_headers self, json = None \<rparr> = Responds r
               \<and> 200 \<le> status_code r \<and> status_code r < 300 \<and> json_result r = Inr payload
             \<longrightarrow> result (get_embedding_models self lib up) =
                   (case payload of
                      PDict kvs \<Rightarrow>
                        (case map_of kvs (''mod'' @ [CHR 0xE8] @ ''les'') of
                           Some v \<Rightarrow> Inr v
                         | None \<Rightarrow> Inl (KeyError (''mod'' @ [CHR 0xE8] @ ''les'')))
                    | _ \<Rightarrow> Inl TypeError)
                 \<and> logged (get_embedding_models self lib up) = []))"
proof -
  let ?req = "\<lambda>s ep. \<lparr> sender = s, http_method = ''GET'',
                 url = ''https://api.olympia.bhub.cloud/'' @ ep,
                 headers = get_headers self, json = None \<rparr>"
  have req: "build_request self s ''GET'' ep None = ?req s ep" for s ep
    by (simp add: build_request_def init_fields(2) [OF assms])
  have sub: "sent (subscript x k) = sent x" "logged (subscript x k) = logged x" for x k
    by (simp_all add: subscript_def split: sum.splits)
  have item: "py_getitem payload models_key =
                (case payload of
                    PDict kvs \<Rightarrow>
                      (case map_of kvs (''mod'' @ [CHR 0xE8] @ ''les'') of
                         Some v \<Rightarrow> Inr v
                       | None \<Rightarrow> Inl (KeyError (''mod'' @ [CHR 0xE8] @ ''les'')))
                  | _ \<Rightarrow> Inl TypeError)" for payload
    by (cases payload) (simp_all add: models_key_def split: option.splits)
  have t1: "\<not> up \<longrightarrow> make_sender lib self up = Inr None"
    by (simp add: make_sender_direct)
  have t2: "up \<and> \<not> truthy (nubonyxia_proxy self) \<longrightarrow>
              make_sender lib self up = Inr (Some new_session)"
    using make_sender_no_proxy [of self lib] by auto
  have a: "sent (subscript (make_request self lib ''GET'' ep None up) models_key) = [?req s ep]"
    if s: "make_sender lib self up = Inr s" for s ep
    by (simp add: sub sent_make_request [OF s] req)
  have c: "result (subscript (make_request self lib ''GET'' ep None up) models_key) =
             py_getitem payload models_key
         \<and> logged (subscript (make_request self lib ''GET'' ep None up) models_key) = []"
    if s: "make_sender lib self up = Inr s"
      and "session_request lib (?req s ep) = Responds r"
       "200 \<le> status_code r" "status_code r < 300" "json_result r = Inr payload"
    for s ep r payload
  proof -
    have t: "try_body (session_request lib) (build_request self s ''GET'' ep None) = Inr payload"
      using try_body_success [where send = "session_request lib" and r = r
              and req = "?req s ep" and v = payload] that
      by (simp add: req)
    show ?thesis
      by (simp add: subscript_def result_make_request [OF s] logged_make_request [OF s] t)
  qed
  show ?thesis
    unfolding get_llm_models_def get_embedding_models_def item [symmetric]
    using t1 t2 a [of _ "''modeles''"] a [of _ "''embedding/models''"]
          c [of _ "''modeles''"] c [of _ "''embedding/models''"]
    by simp
qed

theorem model_lists_subscript_witness:
  "result (get_llm_models test_api
     (replies 200 ''OK'' [] (Inr (PDict [(''mod'' @ [CHR 0xE8] @ ''les'',
                                          PList [PStr ''model1'', PStr ''model2''])]))) False)
     = Inr (PList [PStr ''model1'', PStr ''model2''])
 \<and> result (get_embedding_models test_api
     (replies 200 ''OK'' [] (Inr (PDict [(''modeles'', PList [PStr ''embedding1''])]))) False)
     = Inl (KeyError (''mod'' @ [CHR 0xE8] @ ''les''))
 \<and> sent (get_embedding_models test_api
     (replies 200 ''OK'' [] (Inr (PDict [(''modeles'', PList [PStr ''embedding1''])]))) False)
     = [\<lparr> sender = None, http_method = ''GET'',
           url = ''https://api.olympia.bhub.cloud/embedding/models'',
           headers = get_headers test_api, json = None \<rparr>]
 \<and> result (get_llm_models proxied_api
     (replies 200 ''OK'' [] (Inr (PList [PStr ''model1'']))) True)
     = Inl TypeError"
proof -
  have h: "init ''test_model'' None None test_env = Inr test_api"
    by (simp add: init_def py_or_def)
  have hp: "init ''test_model'' None (Some ''proxy.local:3128'') test_env = Inr proxied_api"
    by (simp add: init_def py_or_def)
  show ?thesis
    using
      model_lists_subscript [OF h,
        of False "replies 200 ''OK'' [] (Inr (PDict [(''mod'' @ [CHR 0xE8] @ ''les'',
                                          PList [PStr ''model1'', PStr ''model2''])]))"]
      model_lists_subscript [OF h, of False
        "replies 200 ''OK'' [] (Inr (PDict [(''modeles'', PList [PStr ''embedding1''])]))"]
      model_lists_subscript [OF hp, of True
        "replies 200 ''OK'' [] (Inr (PList [PStr ''model1'']))"]
    by (simp add: sender_of_host_port)
qed

subsection \<open>Classification of failures\<close>

text \<open>
  C1, as the code has it. No call of \<open>_make_request\<close> makes more than one request. An
  exception of the proxy set-up, which stands before the \<open>try\<close>, reaches the caller as it
  is, with no request made. Once the sender is set up exactly one request is made, and an
  exception raised inside the \<open>try\<close> always ends in an exception raised to the caller,
  never in a returned value: a \<open>ConnectionError\<close> of the HTTP library, a connect timeout
  included, gives \<open>ConnectionError\<close>; a \<open>Timeout\<close> that is not a \<open>ConnectionError\<close>
  gives \<open>TimeoutError\<close>; an \<open>HTTPError\<close> raised once there is a response, as for every
  reply with a status from 400 to 599, gives \<open>ValueError\<close>; a \<open>RequestException\<close> that
  is none of these three gives \<open>RuntimeError\<close>; and an exception outside the
  \<open>RequestException\<close> hierarchy is not classified and reaches the caller as it is.
\<close>

theorem failures_classified:
  "length (sent (make_request self lib mth ep data up)) \<le> 1
 \<and> (\<forall>e. make_sender lib self up = Inl e \<longrightarrow>
        make_request self lib mth ep data up =
          \<lparr> sent = [], logged = [], result = Inl (Propagated e) \<rparr>)
 \<and> (\<forall>s. make_sender lib self up = Inr s \<longrightarrow>
        sent (make_request self lib mth ep data up) = [build_request self s mth ep data]
      \<and> (\<forall>e resp.
            try_body (session_request lib) (build_request self s mth ep data) = Inl (e, resp)
          \<longrightarrow>
            (isinstance e Requests_ConnectionError \<longrightarrow>
               result (make_request self lib mth ep data up) =
                 Inl (ConnectionError (''Failed to connect: '' @ str_of e)))
          \<and> (isinstance e Timeout \<and> \<not> isinstance e Requests_ConnectionError \<longrightarrow>
               result (make_request self lib mth ep data up) =
                 Inl (TimeoutError (''Request timed out: '' @ str_of e)))
          \<and> (isinstance e HTTPError \<and> resp \<noteq> None \<longrightarrow>
               result (make_request self lib mth ep data up) =
                 Inl (ValueError (''HTTP error occurred: '' @ str_of e)))
          \<and> (isinstance e RequestException \<and> \<not> isinstance e Requests_ConnectionError
               \<and> \<not> isinstance e Timeout \<and> \<not> isinstance e HTTPError \<longrightarrow>
               result (make_request self lib mth ep data up) =
                 Inl (RuntimeError (''Request failed: '' @ str_of e)))
          \<and> (\<not> isinstance e RequestException \<longrightarrow>
               result (make_request self lib mth ep data up) = Inl (Propagated e))
          \<and> (\<exists>x. result (make_request self lib mth ep data up) = Inl x))
      \<and> (\<forall>r. session_request lib (build_request self s mth ep data) = Responds r
               \<and> 400 \<le> status_code r \<and> status_code r < 600 \<longrightarrow>
             (\<exists>m. result (make_request self lib mth ep data up) =
                    Inl (ValueError (''HTTP error occurred: '' @ m)))))"
proof -
  let ?out = "make_request self lib mth ep data up"
  have set_up: "\<forall>e. make_sender lib self up = Inl e \<longrightarrow>
        ?out = \<lparr> sent = [], logged = [], result = Inl (Propagated e) \<rparr>"
    by (simp add: make_request_setup_raised)
  have sending: "sent ?out = [build_request self s mth ep data]
      \<and> (\<forall>e resp.
            try_body (session_request lib) (build_request self s mth ep data) = Inl (e, resp)
          \<longrightarrow>
            (isinstance e Requests_ConnectionError \<longrightarrow>
               result ?out = Inl (ConnectionError (''Failed to connect: '' @ str_of e)))
          \<and> (isinstance e Timeout \<and> \<not> isinstance e Requests_ConnectionError \<longrightarrow>
               result ?out = Inl (TimeoutError (''Request timed out: '' @ str_of e)))
          \<and> (isinstance e HTTPError \<and> resp \<noteq> None \<longrightarrow>
               result ?out = Inl (ValueError (''HTTP error occurred: '' @ str_of e)))
          \<and> (isinstance e RequestException \<and> \<not> isinstance e Requests_ConnectionError
               \<and> \<not> isinstance e Timeout \<and> \<not> isinstance e HTTPError \<longrightarrow>
               result ?out = Inl (RuntimeError (''Request failed: '' @ str_of e)))
          \<and> (\<not> isinstance e RequestException \<longrightarrow> result ?out = Inl (Propagated e))
          \<and> (\<exists>x. result ?out = Inl x))
      \<and> (\<forall>r. session_request lib (build_request self s mth ep data) = Responds r
               \<and> 400 \<le> status_code r \<and> status_code r < 600 \<longrightarrow>
             (\<exists>m. result ?out = Inl (ValueError (''HTTP error occurred: '' @ m))))"
    if s: "make_sender lib self up = Inr s" for s
  proof -
    let ?req = "build_request self s mth ep data"
    have a: "sent ?out = [?req]"
      by (rule sent_make_request [OF s])
    have b: "result ?out = Inl (snd (except_clauses e resp))"
      if "try_body (session_request lib) ?req = Inl (e, resp)" for e resp
      using that by (simp add: result_make_request [OF s])
    have c: "\<exists>m. result ?out = Inl (ValueError (''HTTP error occurred: '' @ m))"
      if "session_request lib ?req = Responds r" "400 \<le> status_code r" "status_code r < 600"
      for r
      using try_body_status_error [where send = "session_request lib" and r = r, OF that]
      by (simp add: result_make_request [OF s] except_http)
    show ?thesis
      using a b c
      by (auto simp: except_connection except_timeout except_other except_http
                     outside_hierarchy)
  qed
  from sent_at_most_one [of self lib mth ep data up] set_up sending show ?thesis
    by blast
qed

theorem failures_classified_witness:
  "result (make_request test_api (raises Requests_ConnectionError ''refused'')
            ''POST'' ''generate'' None False)
     = Inl (ConnectionError ''Failed to connect: refused'')
 \<and> result (make_request test_api (raises ReadTimeout ''read timed out'')
            ''POST'' ''generate'' None False)
     = Inl (TimeoutError ''Request timed out: read timed out'')
 \<and> result (make_request test_api (raises TooManyRedirects ''Exceeded 30 redirects.'')
            ''POST'' ''generate'' None False)
     = Inl (RuntimeError ''Request failed: Exceeded 30 redirects.'')
 \<and> (\<exists>m. result (make_request test_api (replies 400 ''Bad Request'' ''test_error'' (Inr PNone))
            ''POST'' ''generate'' None False)
     = Inl (ValueError (''HTTP error occurred: '' @ m)))
 \<and> sent (make_request test_api (replies 400 ''Bad Request'' ''test_error'' (Inr PNone))
            ''POST'' ''generate'' None False)
     = [build_request test_api None ''POST'' ''generate'' None]
 \<and> make_request bad_proxied_api (raises ReadTimeout ''read timed out'')
            ''POST'' ''generate'' None True
     = \<lparr> sent = [], logged = [],
         result = Inl (Propagated (Raised OtherException ''Invalid IPv6 URL'')) \<rparr>"
  using
    failures_classified [of test_api "raises Requests_ConnectionError ''refused''"
      "''POST''" "''generate''" None False]
    failures_classified [of test_api "raises ReadTimeout ''read timed out''"
      "''POST''" "''generate''" None False]
    failures_classified [of test_api "raises TooManyRedirects ''Exceeded 30 redirects.''"
      "''POST''" "''generate''" None False]
    failures_classified [of test_api "replies 400 ''Bad Request'' ''test_error'' (Inr PNone)"
      "''POST''" "''generate''" None False]
    failures_classified [of bad_proxied_api "raises ReadTimeout ''read timed out''"
      "''POST''" "''generate''" None True]
  by (simp add: try_body_def make_sender_direct sender_of_bad_proxy)

text \<open>
  C1 as the spec states it fails at each of these. A connect timeout is a timeout, and it
  raises \<open>ConnectionError\<close>, not \<open>TimeoutError\<close>. A reply with status 304 is not a 2xx
  reply, and no \<open>ValueError\<close> is raised for it: \<open>raise_for_status\<close> passes, and the
  empty body, which does not parse, ends in \<open>RuntimeError\<close>. Failures of other kinds than
  the four do reach the caller: an exception of the transport outside the
  \<open>RequestException\<close> hierarchy, the \<open>UnboundLocalError\<close> of the \<open>HTTPError\<close> clause
  when the transport itself raised the \<open>HTTPError\<close>, and the exception of a proxy set-up
  that fails.
\<close>

theorem failures_classified_counterexample:
  "isinstance (Raised ConnectTimeout ''connect timed out'') Timeout
 \<and> result (make_request test_api (raises ConnectTimeout ''connect timed out'')
            ''POST'' ''generate'' None False)
     = Inl (ConnectionError ''Failed to connect: connect timed out'')
 \<and> result (make_request test_api
            (replies 304 ''Not Modified'' [] (Inl (Raised JSONDecodeError ''Expecting value'')))
            ''GET'' ''modeles'' None False)
     = Inl (RuntimeError ''Request failed: Expecting value'')
 \<and> result (make_request test_api (raises OtherException ''Could not parse'')
            ''POST'' ''generate'' None False)
     = Inl (Propagated (Raised OtherException ''Could not parse''))
 \<and> result (make_request test_api (raises HTTPError ''bad gateway'')
            ''POST'' ''generate'' None False)
     = Inl (UnboundLocalError ''response'')
 \<and> make_request bad_proxied_api (raises ReadTimeout ''read timed out'')
            ''POST'' ''generate'' None True
     = \<lparr> sent = [], logged = [],
         result = Inl (Propagated (Raised OtherException ''Invalid IPv6 URL'')) \<rparr>"
  by (simp add: result_make_request [OF make_sender_direct] build_request_def try_body_def
                raise_for_status_def except_clauses_def
                make_request_setup_raised [OF sender_of_bad_proxy])

subsection \<open>What a rejected request carries\<close>

text \<open>
  C8, as the code has it. For a reply with a status from 400 to 599, the exception raised to
  the caller is a \<open>ValueError\<close> whose message is \<open>HTTP error occurred:\<close> followed by the
  text of the HTTP error, which names the status code, the reason and the URL. The body of
  the reply is no part of it.
\<close>

theorem rejected_carries_status:
  assumes "make_sender lib self up = Inr s"
    and "session_request lib (build_request self s mth ep data) = Responds r"
    and "400 \<le> status_code r" and "status_code r < 600"
  shows "result (make_request self lib mth ep data up) =
           Inl (ValueError
             (''HTTP error occurred: '' @ str_nat (status_code r)
                @ (if status_code r < 500 then '' Client Error: '' else '' Server Error: '')
                @ reason r @ '' for url: '' @ resp_url r))"
  using try_body_status_error [where send = "session_request lib" and r = r, OF assms(2-4)]
  by (simp add: result_make_request [OF assms(1)] except_http)

theorem rejected_carries_status_witness:
  "result (make_request test_api (replies 503 ''Service Unavailable'' ''try later'' (Inr PNone))
            ''POST'' ''generate'' None False)
     = Inl (ValueError ''HTTP error occurred: 503 Server Error: Service Unavailable for url: https://api.olympia.bhub.cloud/generate'')"
proof -
  let ?lib = "replies 503 ''Service Unavailable'' ''try later'' (Inr PNone)"
  let ?r = "\<lparr> status_code = 503, reason = ''Service Unavailable'',
              resp_url = ''https://api.olympia.bhub.cloud/generate'',
              resp_text = ''try later'', json_result = Inr PNone \<rparr>"
  have h: "make_sender ?lib test_api False = Inr None"
    "session_request ?lib (build_request test_api None ''POST'' ''generate'' None) = Responds ?r"
    "400 \<le> status_code ?r" "status_code ?r < 600"
    by (simp_all add: build_request_def make_sender_direct)
  show ?thesis
    using rejected_carries_status [where lib = ?lib and r = ?r, OF h]
    by (simp add: digit_def)
qed

text \<open>
  C8 as the spec states it fails: two replies with status 400 that differ in nothing but
  their body raise the very same exception, whose message has nothing of either body.
\<close>

theorem rejected_body_counterexample:
  "result (make_request test_api (replies 400 ''Bad Request'' ''test_error'' (Inr PNone))
            ''POST'' ''generate'' None False)
     = Inl (ValueError ''HTTP error occurred: 400 Client Error: Bad Request for url: https://api.olympia.bhub.cloud/generate'')
 \<and> result (make_request test_api (replies 400 ''Bad Request'' ''quota exceeded'' (Inr PNone))
            ''POST'' ''generate'' None False)
     = Inl (ValueError ''HTTP error occurred: 400 Client Error: Bad Request for url: https://api.olympia.bhub.cloud/generate'')"
  by (simp add: result_make_request [OF make_sender_direct] build_request_def try_body_def
                raise_for_status_def except_clauses_def digit_def)

subsection \<open>Connect timeouts\<close>

text \<open>
  C9. A connect timeout is an instance of both the connection error and the timeout of the
  HTTP library. Raised by the transport, it ends in \<open>ConnectionError\<close>, since that clause
  comes first. \<open>TimeoutError\<close> reaches the caller only for an exception raised inside the
  \<open>try\<close> that is a timeout and not a connection error.
\<close>

theorem connect_timeout_is_connection_failure:
  "isinstance (Raised ConnectTimeout m) Requests_ConnectionError
 \<and> isinstance (Raised ConnectTimeout m) Timeout
 \<and> (\<forall>s. make_sender lib self up = Inr s
        \<and> session_request lib (build_request self s mth ep data) = Raises (Raised ConnectTimeout m)
      \<longrightarrow> result (make_request self lib mth ep data up) =
            Inl (ConnectionError (''Failed to connect: '' @ m)))
 \<and> (\<forall>x. result (make_request self lib mth ep data up) = Inl (TimeoutError x) \<longrightarrow>
      (\<exists>s e resp. make_sender lib self up = Inr s
         \<and> try_body (session_request lib) (build_request self s mth ep data) = Inl (e, resp)
         \<and> isinstance e Timeout \<and> \<not> isinstance e Requests_ConnectionError))"
proof -
  let ?out = "make_request self lib mth ep data up"
  have a: "result ?out = Inl (ConnectionError (''Failed to connect: '' @ m))"
    if s: "make_sender lib self up = Inr s"
      and "session_request lib (build_request self s mth ep data)
             = Raises (Raised ConnectTimeout m)" for s
    using that by (simp add: result_make_request [OF s] try_body_def except_connection)
  have b: "\<exists>s e resp. make_sender lib self up = Inr s
         \<and> try_body (session_request lib) (build_request self s mth ep data) = Inl (e, resp)
         \<and> isinstance e Timeout \<and> \<not> isinstance e Requests_ConnectionError"
    if out: "result ?out = Inl (TimeoutError x)" for x
  proof (cases "make_sender lib self up")
    case (Inl e)
    with out show ?thesis by (simp add: make_request_setup_raised)
  next
    case s: (Inr s)
    show ?thesis
    proof (cases "try_body (session_request lib) (build_request self s mth ep data)")
      case (Inl er)
      obtain e resp where er: "er = (e, resp)" by (cases er)
      from out Inl er have "snd (except_clauses e resp) = TimeoutError x"
        by (simp add: result_make_request [OF s])
      from except_timeout_only [OF this] Inl er s show ?thesis by blast
    next
      case (Inr v)
      with out show ?thesis by (simp add: result_make_request [OF s])
    qed
  qed
  from a b show ?thesis by simp
qed

theorem connect_timeout_is_connection_failure_witness:
  "result (make_request test_api (raises ConnectTimeout ''connect timed out'')
            ''POST'' ''generate'' None False)
     = Inl (ConnectionError ''Failed to connect: connect timed out'')
 \<and> result (make_request test_api (raises ReadTimeout ''read timed out'')
            ''POST'' ''generate'' None False)
     = Inl (TimeoutError ''Request timed out: read timed out'')
 \<and> try_body (session_request (raises ReadTimeout ''read timed out''))
      (build_request test_api None ''POST'' ''generate'' None)
     = Inl (Raised ReadTimeout ''read timed out'', None)"
proof -
  have r: "result (make_request test_api (raises ReadTimeout ''read timed out'')
            ''POST'' ''generate'' None False)
     = Inl (TimeoutError ''Request timed out: read timed out'')"
    by (simp add: result_make_request [OF make_sender_direct] try_body_def except_clauses_def)
  show ?thesis
    using r
      connect_timeout_is_connection_failure [of "''connect timed out''"
        "raises ConnectTimeout ''connect timed out''" test_api False
        "''POST''" "''generate''" None]
      connect_timeout_is_connection_failure [of "''read timed out''"
        "raises ReadTimeout ''read timed out''" test_api False
        "''POST''" "''generate''" None]
    by (simp add: try_body_def make_sender_direct)
qed

end
